theory Spec2Isabelle
  imports Main "HOL-Library.Multiset"
begin

section \<open>Board positions (board.go)\<close>

text \<open>
  Go \<open>int\<close> values (rows, columns, points, counts) are modelled as \<open>int\<close>: every
  arithmetic operation of the modelled functions is guarded by a range check, so no
  overflow can occur. Strings are byte strings restricted to ASCII input; a \<open>byte\<close>
  subtraction wraps modulo 256 and is written out.
\<close>

datatype PremiumType =
    Normal
  | DoubleLetterScore
  | TripleLetterScore
  | DoubleWordScore
  | TripleWordScore

record position =
  Row :: int
  Col :: int

text \<open>A tile (tile.go). \<open>Letter\<close> is a Go \<open>rune\<close>; 0 marks a blank.\<close>

record tile =
  Letter :: int
  Points :: int
  IsBlank :: bool

text \<open>The Go errors: one constructor per format string, carrying the formatted arguments.\<close>

datatype error =
    InvalidPositionFormat string
  | InvalidColumn char
  | InvalidRowText string
  | InvalidRow int
  | InvalidPosition string
  | PositionOccupied string
  | NoTileAtPosition string
  | CenterNotH8
  | PremiumCountMismatch PremiumType int int
  | CenterNotDoubleWord
  | RackCapacityExceeded int int int
  | TileNotFoundInRack tile

definition IsValid :: "position \<Rightarrow> bool" where
  "IsValid p = (Row p \<ge> 0 \<and> Row p < 15 \<and> Col p \<ge> 0 \<and> Col p < 15)"

text \<open>\<open>fmt.Sprintf("%d", n)\<close>: decimal digits, most significant first, with a sign.\<close>

fun digits :: "nat \<Rightarrow> string" where
  "digits n = (if n < 10 then [char_of (48 + n)]
               else digits (n div 10) @ [char_of (48 + n mod 10)])"

declare digits.simps [simp del]

definition fmt_d :: "int \<Rightarrow> string" where
  "fmt_d i = (if i < 0 then CHR ''-'' # digits (nat (- i)) else digits (nat i))"

text \<open>\<open>fmt.Sprintf("%s%d", col, row)\<close>.\<close>

definition Sprintf_sd :: "string \<Rightarrow> int \<Rightarrow> string" where
  "Sprintf_sd col row = col @ fmt_d row"

definition String :: "position \<Rightarrow> string" where
  "String p = (if \<not> IsValid p then ''INVALID''
               else let col = [char_of (65 + Col p)];
                        row = Row p + 1
                    in Sprintf_sd col row)"

text \<open>
  \<open>strings.TrimSpace\<close> and \<open>strings.ToUpper\<close> on ASCII input, where Go works byte by
  byte: the white space is the space and the bytes 9 to 13, and only a to z change case.
  On input with a byte of 128 or more the Go functions decode UTF-8 and follow the Unicode
  tables (U+00A0 is trimmed, U+0131 is upper-cased to I); that is not modelled, so the
  statements below that depend on what these two functions return are about ASCII input.
\<close>

definition isSpace :: "char \<Rightarrow> bool" where
  "isSpace c = (c = CHR '' '' \<or> (9 \<le> (of_char c :: nat) \<and> (of_char c :: nat) \<le> 13))"

definition TrimSpace :: "string \<Rightarrow> string" where
  "TrimSpace s = rev (dropWhile isSpace (rev (dropWhile isSpace s)))"

definition toUpper :: "char \<Rightarrow> char" where
  "toUpper c = (if 97 \<le> (of_char c :: nat) \<and> (of_char c :: nat) \<le> 122
                then char_of ((of_char c :: nat) - 32) else c)"

definition ToUpper :: "string \<Rightarrow> string" where
  "ToUpper s = map toUpper s"

text \<open>The Go expression \<open>int(a - b)\<close> on two bytes: the difference wraps modulo 256.\<close>

definition byte_sub :: "char \<Rightarrow> char \<Rightarrow> int" where
  "byte_sub a b = (of_char a - of_char b) mod 256"

text \<open>
  \<open>NewPositionFromString\<close> first replaces \<open>s\<close> by
  \<open>strings.ToUpper(strings.TrimSpace(s))\<close>; \<open>parseNormalized\<close> is the rest of its body,
  on the string those two calls return.
\<close>

definition parseNormalized :: "string \<Rightarrow> error + position" where
  "parseNormalized s =
     (if length s < 2 \<or> length s > 3 then Inl (InvalidPositionFormat s)
      else
        let col = byte_sub (s ! 0) (CHR ''A'') in
        if col < 0 \<or> col > 14 then Inl (InvalidColumn (s ! 0))
        else if length s = 2 then
          (let row = byte_sub (s ! 1) (CHR ''0'') in
           if row < 1 \<or> row > 15 then Inl (InvalidRow row)
           else Inr \<lparr>Row = row - 1, Col = col\<rparr>)
        else if s ! 1 \<noteq> CHR ''1'' then Inl (InvalidRowText (drop 1 s))
        else
          (let row = 10 + byte_sub (s ! 2) (CHR ''0'') in
           if row < 1 \<or> row > 15 then Inl (InvalidRow row)
           else Inr \<lparr>Row = row - 1, Col = col\<rparr>))"

definition NewPositionFromString :: "string \<Rightarrow> error + position" where
  "NewPositionFromString s0 = parseNormalized (ToUpper (TrimSpace s0))"

section \<open>The board (board.go)\<close>

record square =
  Tile :: "tile option"
  Premium :: PremiumType
  Occupied :: bool

text \<open>
  \<open>Grid\<close> is the Go array \<open>[15][15]Square\<close>, a list of 15 rows of 15 squares
  (\<open>wf_board\<close>). Indexing a Go array with an index outside \<open>[0,15)\<close> panics; the
  outcome \<open>Panic\<close> records that.
\<close>

record board =
  Grid :: "square list list"
  Center :: position

definition wf_board :: "board \<Rightarrow> bool" where
  "wf_board b = (length (Grid b) = 15 \<and> list_all (\<lambda>row. length row = 15) (Grid b))"

datatype 'a run = Panic | Done 'a

text \<open>The read \<open>b.Grid[r][c]\<close> and the write \<open>b.Grid[r][c] = sq\<close>.\<close>

definition index_grid :: "board \<Rightarrow> int \<Rightarrow> int \<Rightarrow> square run" where
  "index_grid b r c =
     (if 0 \<le> r \<and> r < 15 \<and> 0 \<le> c \<and> c < 15 then Done (Grid b ! nat r ! nat c) else Panic)"

definition store_grid :: "board \<Rightarrow> int \<Rightarrow> int \<Rightarrow> square \<Rightarrow> board run" where
  "store_grid b r c sq =
     (if 0 \<le> r \<and> r < 15 \<and> 0 \<le> c \<and> c < 15
      then Done (b\<lparr>Grid := (Grid b)[nat r := (Grid b ! nat r)[nat c := sq]]\<rparr>)
      else Panic)"

text \<open>A \<open>for\<close> loop over a slice whose body updates the state and may panic.\<close>

fun forEach :: "'a list \<Rightarrow> ('a \<Rightarrow> 's \<Rightarrow> 's run) \<Rightarrow> 's \<Rightarrow> 's run" where
  "forEach [] body s = Done s"
| "forEach (x # xs) body s = (case body x s of Panic \<Rightarrow> Panic | Done s' \<Rightarrow> forEach xs body s')"

text \<open>
  One iteration of the loops of \<open>initializePremiumSquares\<close>: the error of
  \<open>NewPositionFromString\<close> is discarded, and on error \<open>pos\<close> is the zero position.
\<close>

definition setPremium :: "PremiumType \<Rightarrow> string \<Rightarrow> board \<Rightarrow> board run" where
  "setPremium pt posStr b =
     (let pos = (case NewPositionFromString posStr of
                   Inl err \<Rightarrow> \<lparr>Row = 0, Col = 0\<rparr> | Inr p \<Rightarrow> p)
      in case index_grid b (Row pos) (Col pos) of
           Panic \<Rightarrow> Panic
         | Done sq \<Rightarrow> store_grid b (Row pos) (Col pos) (sq\<lparr>Premium := pt\<rparr>))"

definition twsPositions :: "string list" where
  "twsPositions = [''A1'', ''A8'', ''A15'', ''H1'', ''H15'', ''O1'', ''O8'', ''O15'']"

definition dwsPositions :: "string list" where
  "dwsPositions = [''B2'', ''C3'', ''D4'', ''E5'', ''H8'', ''K5'', ''L4'', ''M3'', ''N2'',
     ''B14'', ''C13'', ''D12'', ''E11'', ''K11'', ''L12'', ''M13'', ''N14'']"

definition tlsPositions :: "string list" where
  "tlsPositions = [''B6'', ''B10'', ''F2'', ''F6'', ''F10'', ''F14'', ''J2'', ''J6'', ''J10'',
     ''J14'', ''N6'', ''N10'']"

definition dlsPositions :: "string list" where
  "dlsPositions = [''A4'', ''A12'', ''C7'', ''C9'', ''D1'', ''D8'', ''D15'', ''G3'', ''G7'', ''G9'',
     ''G13'', ''H4'', ''H12'', ''I3'', ''I7'', ''I9'', ''I13'', ''L1'', ''L8'', ''L15'', ''M7'',
     ''M9'', ''O4'', ''O12'']"

definition initializePremiumSquares :: "board \<Rightarrow> board run" where
  "initializePremiumSquares b =
     (case forEach twsPositions (setPremium TripleWordScore) b of Panic \<Rightarrow> Panic | Done b1 \<Rightarrow>
      case forEach dwsPositions (setPremium DoubleWordScore) b1 of Panic \<Rightarrow> Panic | Done b2 \<Rightarrow>
      case forEach tlsPositions (setPremium TripleLetterScore) b2 of Panic \<Rightarrow> Panic | Done b3 \<Rightarrow>
      forEach dlsPositions (setPremium DoubleLetterScore) b3)"

text \<open>The zero value of \<open>Square\<close> and of the grid, before the loops of \<open>NewBoard\<close> run.\<close>

definition zeroSquare :: square where
  "zeroSquare = \<lparr>Tile = None, Premium = Normal, Occupied = False\<rparr>"

definition NewBoard :: "board run" where
  "NewBoard =
     (let board0 = \<lparr>Grid = replicate 15 (replicate 15 zeroSquare), Center = \<lparr>Row = 7, Col = 7\<rparr>\<rparr>
      in case forEach [0..14] (\<lambda>row. forEach [0..14] (\<lambda>col b.
                store_grid b row col \<lparr>Tile = None, Premium = Normal, Occupied = False\<rparr>)) board0 of
           Panic \<Rightarrow> Panic
         | Done board1 \<Rightarrow> initializePremiumSquares board1)"

definition IsValidPosition :: "board \<Rightarrow> position \<Rightarrow> bool" where
  "IsValidPosition b pos = IsValid pos"

text \<open>
  \<open>PlaceTile\<close> returns the board after the call and the error (\<open>None\<close> for \<open>nil\<close>).
  \<open>square\<close> is a pointer into the grid: the two assignments write the grid.
\<close>

definition PlaceTile :: "board \<Rightarrow> tile \<Rightarrow> position \<Rightarrow> (board \<times> error option) run" where
  "PlaceTile b t pos =
     (if \<not> IsValidPosition b pos then Done (b, Some (InvalidPosition (String pos)))
      else case index_grid b (Row pos) (Col pos) of
             Panic \<Rightarrow> Panic
           | Done sq \<Rightarrow>
               if Occupied sq then Done (b, Some (PositionOccupied (String pos)))
               else (case store_grid b (Row pos) (Col pos) (sq\<lparr>Tile := Some t, Occupied := True\<rparr>) of
                       Panic \<Rightarrow> Panic
                     | Done b' \<Rightarrow> Done (b', None)))"

definition GetTile :: "board \<Rightarrow> position \<Rightarrow> tile option run" where
  "GetTile b pos =
     (if \<not> IsValidPosition b pos then Done None
      else case index_grid b (Row pos) (Col pos) of
             Panic \<Rightarrow> Panic
           | Done sq \<Rightarrow> if \<not> Occupied sq then Done None else Done (Tile sq))"

text \<open>\<open>GetSquare\<close> returns a pointer to the square, or \<open>nil\<close>; the model returns the square pointed to.\<close>

definition GetSquare :: "board \<Rightarrow> position \<Rightarrow> square option run" where
  "GetSquare b pos =
     (if \<not> IsValidPosition b pos then Done None
      else case index_grid b (Row pos) (Col pos) of
             Panic \<Rightarrow> Panic
           | Done sq \<Rightarrow> Done (Some sq))"

text \<open>\<open>RemoveTile\<close> returns the board after the call, the removed tile and the error.\<close>

definition RemoveTile :: "board \<Rightarrow> position \<Rightarrow> (board \<times> tile option \<times> error option) run" where
  "RemoveTile b pos =
     (if \<not> IsValidPosition b pos then Done (b, None, Some (InvalidPosition (String pos)))
      else case index_grid b (Row pos) (Col pos) of
             Panic \<Rightarrow> Panic
           | Done sq \<Rightarrow>
               if \<not> Occupied sq then Done (b, None, Some (NoTileAtPosition (String pos)))
               else (case store_grid b (Row pos) (Col pos) (sq\<lparr>Tile := None, Occupied := False\<rparr>) of
                       Panic \<Rightarrow> Panic
                     | Done b' \<Rightarrow> Done (b', Tile sq, None)))"

definition Square_IsEmpty :: "square \<Rightarrow> bool" where
  "Square_IsEmpty s = (Tile s = None \<or> \<not> Occupied s)"

definition IsEmpty :: "board \<Rightarrow> position \<Rightarrow> bool run" where
  "IsEmpty b pos =
     (if \<not> IsValidPosition b pos then Done False
      else case index_grid b (Row pos) (Col pos) of
             Panic \<Rightarrow> Panic
           | Done sq \<Rightarrow> Done (Square_IsEmpty sq))"

text \<open>\<open>GetAdjacentPositions\<close> returns a slice: \<open>None\<close> is the \<open>nil\<close> slice.\<close>

definition directions :: "position list" where
  "directions = [\<lparr>Row = - 1, Col = 0\<rparr>, \<lparr>Row = 1, Col = 0\<rparr>, \<lparr>Row = 0, Col = - 1\<rparr>, \<lparr>Row = 0, Col = 1\<rparr>]"

fun collectAdjacent :: "board \<Rightarrow> position \<Rightarrow> position list \<Rightarrow> position list \<Rightarrow> position list" where
  "collectAdjacent b pos [] adjacent = adjacent"
| "collectAdjacent b pos (dir # dirs) adjacent =
     (let newPos = \<lparr>Row = Row pos + Row dir, Col = Col pos + Col dir\<rparr>
      in collectAdjacent b pos dirs
           (if IsValidPosition b newPos then adjacent @ [newPos] else adjacent))"

definition GetAdjacentPositions :: "board \<Rightarrow> position \<Rightarrow> position list option run" where
  "GetAdjacentPositions b pos =
     (if \<not> IsValidPosition b pos then Done None
      else Done (Some (collectAdjacent b pos directions [])))"

definition GetPremiumType :: "board \<Rightarrow> position \<Rightarrow> PremiumType run" where
  "GetPremiumType b pos =
     (if \<not> IsValidPosition b pos then Done Normal
      else case index_grid b (Row pos) (Col pos) of
             Panic \<Rightarrow> Panic
           | Done sq \<Rightarrow> Done (Premium sq))"

definition HasTileAt :: "board \<Rightarrow> position \<Rightarrow> bool run" where
  "HasTileAt b pos =
     (if \<not> IsValidPosition b pos then Done False
      else case index_grid b (Row pos) (Col pos) of
             Panic \<Rightarrow> Panic
           | Done sq \<Rightarrow> Done (Occupied sq))"

text \<open>
  The counting loops of \<open>ValidateBoard\<close> and \<open>CountPremiumSquares\<close>. A Go map from
  \<open>PremiumType\<close> to \<open>int\<close> reads 0 at a missing key, so it is a total function.
\<close>

definition countSquare :: "int \<Rightarrow> int \<Rightarrow> board \<times> (PremiumType \<Rightarrow> int) \<Rightarrow> (board \<times> (PremiumType \<Rightarrow> int)) run" where
  "countSquare row col st =
     (case index_grid (fst st) row col of
        Panic \<Rightarrow> Panic
      | Done sq \<Rightarrow> Done (fst st, (snd st)(Premium sq := snd st (Premium sq) + 1)))"

definition CountPremiumSquares :: "board \<Rightarrow> (PremiumType \<Rightarrow> int) run" where
  "CountPremiumSquares b =
     (case forEach [0..14] (\<lambda>row. forEach [0..14] (\<lambda>col. countSquare row col)) (b, \<lambda>pt. 0) of
        Panic \<Rightarrow> Panic
      | Done st \<Rightarrow> Done (snd st))"

definition expectedCounts :: "(PremiumType \<times> int) list" where
  "expectedCounts = [(Normal, 164), (DoubleLetterScore, 24), (TripleLetterScore, 12),
     (DoubleWordScore, 17), (TripleWordScore, 8)]"

text \<open>
  The loop over \<open>expectedCounts\<close> returns at the first mismatch. Go iterates a map in an
  unspecified order; the model takes the order of the literal, which decides only which
  of several mismatches is reported, never whether one is.
\<close>

fun checkCounts :: "(PremiumType \<times> int) list \<Rightarrow> (PremiumType \<Rightarrow> int) \<Rightarrow> error option" where
  "checkCounts [] premiumCounts = None"
| "checkCounts ((premiumType, expected) # rest) premiumCounts =
     (let actual = premiumCounts premiumType
      in if actual \<noteq> expected then Some (PremiumCountMismatch premiumType expected actual)
         else checkCounts rest premiumCounts)"

definition ValidateBoard :: "board \<Rightarrow> error option run" where
  "ValidateBoard b =
     (if Row (Center b) \<noteq> 7 \<or> Col (Center b) \<noteq> 7 then Done (Some CenterNotH8)
      else case forEach [0..14] (\<lambda>row. forEach [0..14] (\<lambda>col. countSquare row col)) (b, \<lambda>pt. 0) of
             Panic \<Rightarrow> Panic
           | Done st \<Rightarrow>
               (case checkCounts expectedCounts (snd st) of
                  Some err \<Rightarrow> Done (Some err)
                | None \<Rightarrow>
                    (case index_grid b (Row (Center b)) (Col (Center b)) of
                       Panic \<Rightarrow> Panic
                     | Done sq \<Rightarrow>
                         if Premium sq \<noteq> DoubleWordScore then Done (Some CenterNotDoubleWord)
                         else Done None)))"


section \<open>The tile bag (tile.go)\<close>

text \<open>The mutex of \<open>TileBag\<close> is left out: the model is sequential.\<close>

record TileBag =
  tiles :: "tile list"

text \<open>\<open>standardTileDistribution\<close>: letter to (quantity, points).\<close>

definition standardTileDistribution :: "(int \<times> nat \<times> int) list" where
  "standardTileDistribution =
    [(65, 9, 1), (66, 2, 3), (67, 2, 3), (68, 4, 2), (69, 12, 1),
     (70, 2, 4), (71, 3, 2), (72, 2, 4), (73, 9, 1), (74, 1, 8),
     (75, 1, 5), (76, 4, 1), (77, 2, 3), (78, 6, 1), (79, 8, 1),
     (80, 2, 3), (81, 1, 10), (82, 6, 1), (83, 4, 1), (84, 6, 1),
     (85, 4, 1), (86, 2, 4), (87, 2, 4), (88, 1, 8), (89, 2, 4),
     (90, 1, 10)]"

definition blankTileCount :: nat where
  "blankTileCount = 2"

text \<open>
  \<open>shuffle\<close>: \<open>i\<close> runs from \<open>len - 1\<close> down to 1 and swaps positions \<open>i\<close> and
  \<open>j = rand.Intn(i + 1)\<close>. The random source is the parameter \<open>rnd\<close>: \<open>rnd i\<close> is
  the number drawn at index \<open>i\<close>, reduced into \<open>[0, i + 1)\<close>.
\<close>

fun shuffleFrom :: "(nat \<Rightarrow> nat) \<Rightarrow> nat \<Rightarrow> tile list \<Rightarrow> tile list" where
  "shuffleFrom rnd 0 ts = ts"
| "shuffleFrom rnd (Suc k) ts =
     (let i = Suc k; j = rnd i mod (i + 1)
      in shuffleFrom rnd k (ts[i := ts ! j, j := ts ! i]))"

definition shuffle :: "(nat \<Rightarrow> nat) \<Rightarrow> TileBag \<Rightarrow> TileBag" where
  "shuffle rnd tb = tb\<lparr>tiles := shuffleFrom rnd (length (tiles tb) - 1) (tiles tb)\<rparr>"

text \<open>
  \<open>NewTileBag\<close> ranges over the map \<open>standardTileDistribution\<close> in the order the Go
  runtime picks: the parameter \<open>order\<close> lists the keys in that order.
\<close>

fun addLetters :: "int list \<Rightarrow> tile list \<Rightarrow> tile list" where
  "addLetters [] ts = ts"
| "addLetters (letter # rest) ts =
     (case map_of standardTileDistribution letter of
        None \<Rightarrow> addLetters rest ts
      | Some (quantity, points) \<Rightarrow>
          addLetters rest (ts @ replicate quantity \<lparr>Letter = letter, Points = points, IsBlank = False\<rparr>))"

definition NewTileBag :: "int list \<Rightarrow> (nat \<Rightarrow> nat) \<Rightarrow> TileBag" where
  "NewTileBag order rnd =
     (let letters = addLetters order [];
          withBlanks = letters @ replicate blankTileCount \<lparr>Letter = 0, Points = 0, IsBlank = True\<rparr>
      in shuffle rnd \<lparr>tiles = withBlanks\<rparr>)"

text \<open>\<open>DrawTiles\<close> returns the drawn tiles and the bag after the call.\<close>

definition DrawTiles :: "TileBag \<Rightarrow> int \<Rightarrow> tile list \<times> TileBag" where
  "DrawTiles tb cnt =
     (if cnt \<le> 0 then ([], tb)
      else let available = int (length (tiles tb));
               cnt' = (if cnt > available then available else cnt);
               drawn = drop (nat (available - cnt')) (tiles tb)
           in (drawn, tb\<lparr>tiles := take (nat (available - cnt')) (tiles tb)\<rparr>))"

definition ReturnTiles :: "(nat \<Rightarrow> nat) \<Rightarrow> TileBag \<Rightarrow> tile list \<Rightarrow> TileBag" where
  "ReturnTiles rnd tb ts = shuffle rnd (tb\<lparr>tiles := tiles tb @ ts\<rparr>)"

definition RemainingCount :: "TileBag \<Rightarrow> int" where
  "RemainingCount tb = int (length (tiles tb))"

definition GetTileValue :: "int \<Rightarrow> int" where
  "GetTileValue letter =
     (case map_of standardTileDistribution letter of
        Some (quantity, points) \<Rightarrow> points
      | None \<Rightarrow> 0)"

section \<open>Players and racks (player.go)\<close>

record Player =
  ID :: string
  Name :: string
  Rack :: "tile list"
  Score :: int
  IsActive :: bool

definition MaxRackSize :: int where
  "MaxRackSize = 7"

text \<open>The methods return the player after the call and the error (\<open>None\<close> for \<open>nil\<close>).\<close>

definition AddTilesToRack :: "Player \<Rightarrow> tile list \<Rightarrow> Player \<times> error option" where
  "AddTilesToRack p ts =
     (if length ts = 0 then (p, None)
      else if int (length (Rack p)) + int (length ts) > MaxRackSize
           then (p, Some (RackCapacityExceeded (int (length ts)) MaxRackSize (int (length (Rack p)))))
           else (p\<lparr>Rack := Rack p @ ts\<rparr>, None))"

definition tilesEqual :: "tile \<Rightarrow> tile \<Rightarrow> bool" where
  "tilesEqual a b = (Letter a = Letter b \<and> Points a = Points b \<and> IsBlank a = IsBlank b)"

text \<open>
  The inner loop of \<open>RemoveTilesByValue\<close>: delete the first tile of \<open>rackCopy\<close> equal
  to \<open>tileToRemove\<close>; \<open>None\<close> when \<open>found\<close> stays false.
\<close>

fun removeFound :: "tile \<Rightarrow> tile list \<Rightarrow> tile list option" where
  "removeFound tileToRemove [] = None"
| "removeFound tileToRemove (rackTile # rest) =
     (if tilesEqual rackTile tileToRemove then Some rest
      else case removeFound tileToRemove rest of
             None \<Rightarrow> None
           | Some rest' \<Rightarrow> Some (rackTile # rest'))"

fun removeEach :: "tile list \<Rightarrow> tile list \<Rightarrow> error + tile list" where
  "removeEach [] rackCopy = Inr rackCopy"
| "removeEach (tileToRemove # rest) rackCopy =
     (case removeFound tileToRemove rackCopy of
        None \<Rightarrow> Inl (TileNotFoundInRack tileToRemove)
      | Some rackCopy' \<Rightarrow> removeEach rest rackCopy')"

definition RemoveTilesByValue :: "Player \<Rightarrow> tile list \<Rightarrow> Player \<times> error option" where
  "RemoveTilesByValue p ts =
     (if length ts = 0 then (p, None)
      else case removeEach ts (Rack p) of
             Inl err \<Rightarrow> (p, Some err)
           | Inr rackCopy \<Rightarrow> (p\<lparr>Rack := rackCopy\<rparr>, None))"

section \<open>Vocabulary of the specification\<close>



text \<open>
  The premium layout written out, one string per row, top row first, in the marks that
  \<open>Board.String\<close> prints: \<open>*\<close> triple word, \<open>+\<close> double word, \<open>^\<close> triple letter,
  \<open>-\<close> double letter, \<open>.\<close> normal.
\<close>

definition premiumOfMark :: "char \<Rightarrow> PremiumType" where
  "premiumOfMark m =
     (if m = CHR ''*'' then TripleWordScore
      else if m = CHR ''+'' then DoubleWordScore
      else if m = CHR ''^'' then TripleLetterScore
      else if m = CHR ''-'' then DoubleLetterScore
      else Normal)"

definition officialLayout :: "string list" where
  "officialLayout =
   [''*..-...*...-..*'',
    ''.+...^...^...+.'',
    ''..+...-.-...+..'',
    ''-..+...-...+..-'',
    ''....+.....+....'',
    ''.^...^...^...^.'',
    ''..-...-.-...-..'',
    ''*..-...+...-..*'',
    ''..-...-.-...-..'',
    ''.^...^...^...^.'',
    ''....+.....+....'',
    ''-..+...-...+..-'',
    ''..+...-.-...+..'',
    ''.+...^...^...+.'',
    ''*..-...*...-..*'']"

definition layoutBoard :: board where
  "layoutBoard =
     \<lparr>Grid = map (map (\<lambda>m. \<lparr>Tile = None, Premium = premiumOfMark m, Occupied = False\<rparr>)) officialLayout,
      Center = \<lparr>Row = 7, Col = 7\<rparr>\<rparr>"

text \<open>The number of squares of a board that carry a given premium type.\<close>

definition premiumCount :: "board \<Rightarrow> PremiumType \<Rightarrow> nat" where
  "premiumCount b pt = length (filter (\<lambda>sq. Premium sq = pt) (concat (Grid b)))"

text \<open>A sequence of \<open>PlaceTile\<close> and \<open>RemoveTile\<close> calls on one board; the results of the calls are dropped.\<close>

datatype board_call = CallPlaceTile tile position | CallRemoveTile position

fun run_calls :: "board \<Rightarrow> board_call list \<Rightarrow> board run" where
  "run_calls b [] = Done b"
| "run_calls b (CallPlaceTile t pos # calls) =
     (case PlaceTile b t pos of Panic \<Rightarrow> Panic | Done (b', err) \<Rightarrow> run_calls b' calls)"
| "run_calls b (CallRemoveTile pos # calls) =
     (case RemoveTile b pos of Panic \<Rightarrow> Panic | Done (b', removed, err) \<Rightarrow> run_calls b' calls)"

text \<open>
  A sequence of \<open>AddTilesToRack\<close> and \<open>RemoveTilesByValue\<close> calls on one player; the
  errors of the calls are dropped.
\<close>

datatype rack_call = CallAddTilesToRack "tile list" | CallRemoveTilesByValue "tile list"

fun run_rack_calls :: "Player \<Rightarrow> rack_call list \<Rightarrow> Player" where
  "run_rack_calls p [] = p"
| "run_rack_calls p (CallAddTilesToRack ts # calls) = run_rack_calls (fst (AddTilesToRack p ts)) calls"
| "run_rack_calls p (CallRemoveTilesByValue ts # calls) =
     run_rack_calls (fst (RemoveTilesByValue p ts)) calls"

section \<open>Position labels\<close>








































section \<open>The premium layout of a new board\<close>

lemma NewBoard_layout: "NewBoard = Done layoutBoard"
  by code_simp

lemma layout_wf: "wf_board layoutBoard"
  by code_simp

lemma layout_tws: "premiumCount layoutBoard TripleWordScore = 8"
  by code_simp

lemma layout_dws: "premiumCount layoutBoard DoubleWordScore = 17"
  by code_simp

lemma layout_tls: "premiumCount layoutBoard TripleLetterScore = 12"
  by code_simp

lemma layout_dls: "premiumCount layoutBoard DoubleLetterScore = 24"
  by code_simp

lemma layout_normal: "premiumCount layoutBoard Normal = 164"
  by code_simp

lemma layout_center: "Center layoutBoard = \<lparr>Row = 7, Col = 7\<rparr>"
  by (simp add: layoutBoard_def)

lemma layout_center_premium: "GetPremiumType layoutBoard (Center layoutBoard) = Done DoubleWordScore"
  by code_simp

lemma layout_valid: "ValidateBoard layoutBoard = Done None"
  by code_simp

lemma layout_counted:
  "(case CountPremiumSquares layoutBoard of
      Panic \<Rightarrow> False
    | Done counts \<Rightarrow>
        map counts [TripleWordScore, DoubleWordScore, TripleLetterScore, DoubleLetterScore, Normal]
          = [8, 17, 12, 24, 164])"
  by code_simp

text \<open>
  C1. \<open>NewBoard\<close> returns a 15 by 15 board with exactly 8 triple-word, 17 double-word,
  12 triple-letter and 24 double-letter squares and 164 normal ones; its center is
  (row 7, col 7), the center square is double-word, \<open>CountPremiumSquares\<close> reports the
  same five counts, and \<open>ValidateBoard\<close> returns \<open>nil\<close> on it.
\<close>

theorem NewBoard_premium_layout:
  "\<exists>b. NewBoard = Done b
     \<and> wf_board b
     \<and> premiumCount b TripleWordScore = 8
     \<and> premiumCount b DoubleWordScore = 17
     \<and> premiumCount b TripleLetterScore = 12
     \<and> premiumCount b DoubleLetterScore = 24
     \<and> premiumCount b Normal = 164
     \<and> (\<exists>counts. CountPremiumSquares b = Done counts
            \<and> map counts [TripleWordScore, DoubleWordScore, TripleLetterScore, DoubleLetterScore, Normal]
                = [8, 17, 12, 24, 164])
     \<and> Center b = \<lparr>Row = 7, Col = 7\<rparr>
     \<and> GetPremiumType b (Center b) = Done DoubleWordScore
     \<and> ValidateBoard b = Done None"
proof -
  from layout_counted obtain counts where "CountPremiumSquares layoutBoard = Done counts"
    and "map counts [TripleWordScore, DoubleWordScore, TripleLetterScore, DoubleLetterScore, Normal]
           = [8, 17, 12, 24, 164]"
    by (cases "CountPremiumSquares layoutBoard") simp_all
  with NewBoard_layout layout_wf layout_tws layout_dws layout_tls layout_dls layout_normal
    layout_center layout_center_premium layout_valid
  show ?thesis by (intro exI [of _ layoutBoard]) simp
qed

theorem NewBoard_premium_layout_witness:
  "\<exists>b. NewBoard = Done b \<and> premiumCount b Normal = 164 \<and> ValidateBoard b = Done None"
  using NewBoard_premium_layout by blast

section \<open>Premium types are fixed\<close>

lemma index_grid_valid: "IsValid pos \<Longrightarrow> index_grid b (Row pos) (Col pos) = Done (Grid b ! nat (Row pos) ! nat (Col pos))"
  by (simp add: index_grid_def IsValid_def)

lemma store_grid_valid:
  "IsValid pos \<Longrightarrow> store_grid b (Row pos) (Col pos) sq =
     Done (b\<lparr>Grid := (Grid b)[nat (Row pos) := (Grid b ! nat (Row pos))[nat (Col pos) := sq]]\<rparr>)"
  by (simp add: store_grid_def IsValid_def)

lemma nth_update_2d:
  assumes "i < length xss" "j < length (xss ! i)"
  shows "xss[i := (xss ! i)[j := v]] ! i ! j = v"
  using assms by simp

lemma nth_update_2d_other:
  assumes "(i', j') \<noteq> (i, j)"
  shows "xss[i := (xss ! i)[j := v]] ! i' ! j' = xss ! i' ! j'"
proof (cases "i' = i")
  case False
  then show ?thesis by simp
next
  case True
  with assms have j: "j' \<noteq> j" by simp
  show ?thesis
  proof (cases "i < length xss")
    case True
    with \<open>i' = i\<close> j show ?thesis by simp
  next
    case False
    then show ?thesis by (simp add: list_update_beyond)
  qed
qed

lemma wf_board_row: "wf_board b \<Longrightarrow> i < 15 \<Longrightarrow> length (Grid b ! i) = 15"
  by (simp add: wf_board_def list_all_length)

lemma wf_board_update:
  assumes "wf_board b"
  shows "wf_board (b\<lparr>Grid := (Grid b)[i := (Grid b ! i)[j := v]]\<rparr>)"
proof (cases "i < length (Grid b)")
  case True
  with assms show ?thesis by (auto simp: wf_board_def list_all_length nth_list_update)
next
  case False
  with assms show ?thesis by (simp add: list_update_beyond)
qed

lemma premium_update_2d:
  assumes "Premium v = Premium (xss ! i ! j)"
  shows "map (map Premium) (xss[i := (xss ! i)[j := v]]) = map (map Premium) xss"
proof (cases "i < length xss \<and> j < length (xss ! i)")
  case True
  then have "map Premium ((xss ! i)[j := v]) = map Premium (xss ! i)"
    using assms by (simp add: map_update list_update_same_conv)
  then have "(map (map Premium) xss)[i := map Premium ((xss ! i)[j := v])] = map (map Premium) xss"
    using True by (simp add: list_update_same_conv)
  then show ?thesis by (simp add: map_update)
next
  case False
  then consider "\<not> i < length xss" | "i < length xss" "\<not> j < length (xss ! i)" by blast
  then show ?thesis
  proof cases
    case 1
    then show ?thesis by (simp add: list_update_beyond)
  next
    case 2
    then have "(xss ! i)[j := v] = xss ! i" by (simp add: list_update_beyond)
    then show ?thesis by simp
  qed
qed

lemma PlaceTile_premium:
  "\<exists>b' err. PlaceTile b t pos = Done (b', err) \<and> map (map Premium) (Grid b') = map (map Premium) (Grid b)"
proof (cases "IsValid pos")
  case False
  then show ?thesis by (simp add: PlaceTile_def IsValidPosition_def)
next
  case True
  then show ?thesis
    by (simp add: PlaceTile_def IsValidPosition_def index_grid_valid store_grid_valid premium_update_2d)
qed

lemma RemoveTile_premium:
  "\<exists>b' removed err. RemoveTile b pos = Done (b', removed, err) \<and> map (map Premium) (Grid b') = map (map Premium) (Grid b)"
proof (cases "IsValid pos")
  case False
  then show ?thesis by (simp add: RemoveTile_def IsValidPosition_def)
next
  case True
  then show ?thesis
    by (simp add: RemoveTile_def IsValidPosition_def index_grid_valid store_grid_valid premium_update_2d)
qed

text \<open>
  C8. Whatever sequence of \<open>PlaceTile\<close> and \<open>RemoveTile\<close> calls runs on a board,
  succeeding or failing, no call panics and the premium type of every square is afterwards
  what it was before.
\<close>

theorem premium_fixed:
  "\<exists>b'. run_calls b calls = Done b' \<and> map (map Premium) (Grid b') = map (map Premium) (Grid b)"
proof (induction calls arbitrary: b)
  case Nil
  show ?case by simp
next
  case (Cons call calls)
  show ?case
  proof (cases call)
    case (CallPlaceTile t pos)
    from PlaceTile_premium [of b t pos] obtain b1 err
      where step: "PlaceTile b t pos = Done (b1, err)"
        and same: "map (map Premium) (Grid b1) = map (map Premium) (Grid b)" by blast
    from Cons.IH [of b1] same step CallPlaceTile show ?thesis by simp
  next
    case (CallRemoveTile pos)
    from RemoveTile_premium [of b pos] obtain b1 removed err
      where step: "RemoveTile b pos = Done (b1, removed, err)"
        and same: "map (map Premium) (Grid b1) = map (map Premium) (Grid b)" by blast
    from Cons.IH [of b1] same step CallRemoveTile show ?thesis by simp
  qed
qed


theorem premium_fixed_witness:
  "\<exists>b'. run_calls \<lparr>Grid = replicate 15 (replicate 15 zeroSquare), Center = \<lparr>Row = 7, Col = 7\<rparr>\<rparr>
           [CallPlaceTile \<lparr>Letter = 65, Points = 1, IsBlank = False\<rparr> \<lparr>Row = 7, Col = 7\<rparr>,
            CallPlaceTile \<lparr>Letter = 66, Points = 3, IsBlank = False\<rparr> \<lparr>Row = 7, Col = 7\<rparr>,
            CallRemoveTile \<lparr>Row = 7, Col = 7\<rparr>,
            CallRemoveTile \<lparr>Row = 15, Col = 0\<rparr>] = Done b'
      \<and> map (map Premium) (Grid b') = replicate 15 (replicate 15 Normal)"
  using premium_fixed [of "\<lparr>Grid = replicate 15 (replicate 15 zeroSquare), Center = \<lparr>Row = 7, Col = 7\<rparr>\<rparr>"
      "[CallPlaceTile \<lparr>Letter = 65, Points = 1, IsBlank = False\<rparr> \<lparr>Row = 7, Col = 7\<rparr>,
        CallPlaceTile \<lparr>Letter = 66, Points = 3, IsBlank = False\<rparr> \<lparr>Row = 7, Col = 7\<rparr>,
        CallRemoveTile \<lparr>Row = 7, Col = 7\<rparr>,
        CallRemoveTile \<lparr>Row = 15, Col = 0\<rparr>]"]
  by (simp add: zeroSquare_def)

section \<open>Placing a tile\<close>

lemma index_grid_update_other:
  assumes "(r, c) \<noteq> (Row pos, Col pos)" "IsValid pos"
  shows "index_grid (b\<lparr>Grid := (Grid b)[nat (Row pos) := (Grid b ! nat (Row pos))[nat (Col pos) := v]]\<rparr>) r c
         = index_grid b r c"
proof (cases "0 \<le> r \<and> r < 15 \<and> 0 \<le> c \<and> c < 15")
  case False
  then show ?thesis by (auto simp: index_grid_def)
next
  case True
  with assms have "(nat r, nat c) \<noteq> (nat (Row pos), nat (Col pos))"
    by (auto simp: IsValid_def)
  from nth_update_2d_other [OF this] True show ?thesis
    by (simp add: index_grid_def)
qed

lemma index_grid_update_same:
  assumes "wf_board b" "IsValid pos"
  shows "index_grid (b\<lparr>Grid := (Grid b)[nat (Row pos) := (Grid b ! nat (Row pos))[nat (Col pos) := v]]\<rparr>)
           (Row pos) (Col pos) = Done v"
proof -
  from assms(2) have r: "nat (Row pos) < 15" and c: "nat (Col pos) < 15"
    by (auto simp: IsValid_def)
  from assms(1) r have "nat (Row pos) < length (Grid b)" by (simp add: wf_board_def)
  moreover from wf_board_row [OF assms(1) r] c have "nat (Col pos) < length (Grid b ! nat (Row pos))"
    by simp
  ultimately have "(Grid b)[nat (Row pos) := (Grid b ! nat (Row pos))[nat (Col pos) := v]]
                     ! nat (Row pos) ! nat (Col pos) = v"
    by (rule nth_update_2d)
  with assms(2) show ?thesis by (simp add: index_grid_def IsValid_def)
qed

text \<open>
  C3. On a 15 by 15 board \<open>PlaceTile\<close> returns (it does not panic). It returns an error
  exactly when the position is out of bounds or the square there is occupied, and then the
  board is unchanged. When it succeeds, the target square holds the given tile and is
  occupied, its premium is kept, and every other square and the center are unchanged.
\<close>

theorem PlaceTile_spec:
  assumes wf: "wf_board b"
  shows "\<exists>b' err. PlaceTile b t pos = Done (b', err)
     \<and> ((err \<noteq> None) = (\<not> IsValid pos \<or> HasTileAt b pos = Done True))
     \<and> (err \<noteq> None \<longrightarrow> b' = b)
     \<and> (err = None \<longrightarrow>
          (\<exists>sq. index_grid b (Row pos) (Col pos) = Done sq
             \<and> index_grid b' (Row pos) (Col pos) = Done (sq\<lparr>Tile := Some t, Occupied := True\<rparr>))
          \<and> GetTile b' pos = Done (Some t)
          \<and> HasTileAt b' pos = Done True
          \<and> (\<forall>r c. (r, c) \<noteq> (Row pos, Col pos) \<longrightarrow> index_grid b' r c = index_grid b r c)
          \<and> Center b' = Center b
          \<and> wf_board b')"
proof (cases "IsValid pos")
  case False
  then show ?thesis
    by (simp add: PlaceTile_def IsValidPosition_def)
next
  case valid: True
  define sq where "sq = Grid b ! nat (Row pos) ! nat (Col pos)"
  have idx: "index_grid b (Row pos) (Col pos) = Done sq"
    using valid by (simp add: index_grid_valid sq_def)
  show ?thesis
  proof (cases "Occupied sq")
    case True
    then show ?thesis
      using valid idx by (simp add: PlaceTile_def IsValidPosition_def HasTileAt_def)
  next
    case False
    define b' where "b' = b\<lparr>Grid := (Grid b)[nat (Row pos) :=
        (Grid b ! nat (Row pos))[nat (Col pos) := sq\<lparr>Tile := Some t, Occupied := True\<rparr>]]\<rparr>"
    have run: "PlaceTile b t pos = Done (b', None)"
      using valid idx False by (simp add: PlaceTile_def IsValidPosition_def store_grid_valid b'_def)
    have same: "index_grid b' (Row pos) (Col pos) = Done (sq\<lparr>Tile := Some t, Occupied := True\<rparr>)"
      unfolding b'_def using wf valid by (rule index_grid_update_same)
    have other: "\<forall>r c. (r, c) \<noteq> (Row pos, Col pos) \<longrightarrow> index_grid b' r c = index_grid b r c"
      unfolding b'_def using valid by (simp add: index_grid_update_other)
    have wf': "wf_board b'"
      unfolding b'_def using wf by (rule wf_board_update)
    have centre: "Center b' = Center b"
      by (simp add: b'_def)
    have get: "GetTile b' pos = Done (Some t)" and has: "HasTileAt b' pos = Done True"
      using valid same by (simp_all add: GetTile_def HasTileAt_def IsValidPosition_def)
    have noerr: "\<not> (\<not> IsValid pos \<or> HasTileAt b pos = Done True)"
      using valid idx False by (simp add: HasTileAt_def IsValidPosition_def)
    show ?thesis
      using run same other wf' centre get has noerr idx by simp
  qed
qed

theorem PlaceTile_spec_witness:
  "wf_board \<lparr>Grid = replicate 15 (replicate 15 zeroSquare), Center = \<lparr>Row = 7, Col = 7\<rparr>\<rparr>
   \<and> (\<exists>b'. PlaceTile \<lparr>Grid = replicate 15 (replicate 15 zeroSquare), Center = \<lparr>Row = 7, Col = 7\<rparr>\<rparr>
              \<lparr>Letter = 65, Points = 1, IsBlank = False\<rparr> \<lparr>Row = 7, Col = 7\<rparr> = Done (b', None)
          \<and> GetTile b' \<lparr>Row = 7, Col = 7\<rparr> = Done (Some \<lparr>Letter = 65, Points = 1, IsBlank = False\<rparr>)
          \<and> HasTileAt b' \<lparr>Row = 7, Col = 7\<rparr> = Done True
          \<and> index_grid b' 7 8 = Done zeroSquare)"
proof -
  define b0 where "b0 = \<lparr>Grid = replicate 15 (replicate 15 zeroSquare), Center = \<lparr>Row = 7, Col = 7\<rparr>\<rparr>"
  define c where "c = \<lparr>Row = 7, Col = (7::int)\<rparr>"
  have wf: "wf_board b0"
    by (simp add: b0_def wf_board_def list_all_length)
  have valid: "IsValid c"
    by (simp add: c_def IsValid_def)
  have free: "HasTileAt b0 c = Done False"
    by (simp add: b0_def c_def HasTileAt_def IsValidPosition_def IsValid_def index_grid_def zeroSquare_def)
  have before: "index_grid b0 7 8 = Done zeroSquare"
    by (simp add: b0_def index_grid_def)
  from PlaceTile_spec [OF wf, of "\<lparr>Letter = 65, Points = 1, IsBlank = False\<rparr>" c]
  obtain b' err where
      run: "PlaceTile b0 \<lparr>Letter = 65, Points = 1, IsBlank = False\<rparr> c = Done (b', err)"
    and err: "(err \<noteq> None) = (\<not> IsValid c \<or> HasTileAt b0 c = Done True)"
    and ok: "err = None \<longrightarrow>
          GetTile b' c = Done (Some \<lparr>Letter = 65, Points = 1, IsBlank = False\<rparr>)
        \<and> HasTileAt b' c = Done True
        \<and> (\<forall>r c'. (r, c') \<noteq> (Row c, Col c) \<longrightarrow> index_grid b' r c' = index_grid b0 r c')"
    by blast
  from err valid free have none: "err = None" by simp
  with ok have "index_grid b' 7 8 = index_grid b0 7 8" by (simp add: c_def)
  with run none ok before wf show ?thesis
    unfolding b0_def c_def by auto
qed

section \<open>Read accessors\<close>

text \<open>
  C10. For every board and every position, in bounds or not, none of the read accessors
  indexes outside the grid (none panics); for a position outside the grid \<open>GetTile\<close>,
  \<open>GetSquare\<close> and \<open>GetAdjacentPositions\<close> return \<open>nil\<close>, \<open>GetPremiumType\<close> returns
  \<open>Normal\<close>, and \<open>IsEmpty\<close> and \<open>HasTileAt\<close> return false.
\<close>

theorem accessors_total:
  "GetTile b pos \<noteq> Panic \<and> GetSquare b pos \<noteq> Panic \<and> GetAdjacentPositions b pos \<noteq> Panic
   \<and> GetPremiumType b pos \<noteq> Panic \<and> IsEmpty b pos \<noteq> Panic \<and> HasTileAt b pos \<noteq> Panic
   \<and> (\<not> IsValid pos \<longrightarrow>
         GetTile b pos = Done None \<and> GetSquare b pos = Done None
       \<and> GetAdjacentPositions b pos = Done None \<and> GetPremiumType b pos = Done Normal
       \<and> IsEmpty b pos = Done False \<and> HasTileAt b pos = Done False)"
proof (cases "IsValid pos")
  case True
  then show ?thesis
    by (simp add: GetTile_def GetSquare_def GetAdjacentPositions_def GetPremiumType_def
        IsEmpty_def HasTileAt_def IsValidPosition_def index_grid_valid)
next
  case False
  then show ?thesis
    by (simp add: GetTile_def GetSquare_def GetAdjacentPositions_def GetPremiumType_def
        IsEmpty_def HasTileAt_def IsValidPosition_def)
qed

theorem accessors_total_witness:
  "\<not> IsValid \<lparr>Row = - 1, Col = 20\<rparr>
   \<and> GetTile \<lparr>Grid = replicate 15 (replicate 15 zeroSquare), Center = \<lparr>Row = 7, Col = 7\<rparr>\<rparr> \<lparr>Row = - 1, Col = 20\<rparr> = Done None
   \<and> GetSquare \<lparr>Grid = replicate 15 (replicate 15 zeroSquare), Center = \<lparr>Row = 7, Col = 7\<rparr>\<rparr> \<lparr>Row = - 1, Col = 20\<rparr> = Done None
   \<and> GetAdjacentPositions \<lparr>Grid = replicate 15 (replicate 15 zeroSquare), Center = \<lparr>Row = 7, Col = 7\<rparr>\<rparr> \<lparr>Row = - 1, Col = 20\<rparr> = Done None
   \<and> GetPremiumType \<lparr>Grid = replicate 15 (replicate 15 zeroSquare), Center = \<lparr>Row = 7, Col = 7\<rparr>\<rparr> \<lparr>Row = - 1, Col = 20\<rparr> = Done Normal
   \<and> IsEmpty \<lparr>Grid = replicate 15 (replicate 15 zeroSquare), Center = \<lparr>Row = 7, Col = 7\<rparr>\<rparr> \<lparr>Row = - 1, Col = 20\<rparr> = Done False
   \<and> HasTileAt \<lparr>Grid = replicate 15 (replicate 15 zeroSquare), Center = \<lparr>Row = 7, Col = 7\<rparr>\<rparr> \<lparr>Row = - 1, Col = 20\<rparr> = Done False"
proof -
  have out: "\<not> IsValid \<lparr>Row = - 1, Col = 20\<rparr>" by (simp add: IsValid_def)
  from accessors_total [of "\<lparr>Grid = replicate 15 (replicate 15 zeroSquare), Center = \<lparr>Row = 7, Col = 7\<rparr>\<rparr>"
      "\<lparr>Row = - 1, Col = 20\<rparr>"] out
  show ?thesis by blast
qed

section \<open>Drawing tiles\<close>

text \<open>
  C4. \<open>DrawTiles(n)\<close> returns exactly min(n, remaining) tiles when n is positive and no
  tile otherwise; \<open>RemainingCount\<close> decreases by the number of tiles returned, the tiles
  returned being the end of the bag; fewer than n tiles are returned only when the bag
  holds fewer than n.
\<close>

theorem DrawTiles_count:
  "length (fst (DrawTiles tb n)) = (if n > 0 then nat (min n (RemainingCount tb)) else 0)
   \<and> RemainingCount (snd (DrawTiles tb n)) = RemainingCount tb - int (length (fst (DrawTiles tb n)))
   \<and> tiles (snd (DrawTiles tb n)) @ fst (DrawTiles tb n) = tiles tb
   \<and> (int (length (fst (DrawTiles tb n))) < n \<longrightarrow> RemainingCount tb < n)"
  by (auto simp: DrawTiles_def RemainingCount_def Let_def min_def)

theorem DrawTiles_count_witness:
  "int (length (fst (DrawTiles \<lparr>tiles = [\<lparr>Letter = 65, Points = 1, IsBlank = False\<rparr>,
        \<lparr>Letter = 66, Points = 3, IsBlank = False\<rparr>, \<lparr>Letter = 0, Points = 0, IsBlank = True\<rparr>]\<rparr> 5))) < 5
   \<and> length (fst (DrawTiles \<lparr>tiles = [\<lparr>Letter = 65, Points = 1, IsBlank = False\<rparr>,
        \<lparr>Letter = 66, Points = 3, IsBlank = False\<rparr>, \<lparr>Letter = 0, Points = 0, IsBlank = True\<rparr>]\<rparr> 5)) = 3
   \<and> RemainingCount \<lparr>tiles = [\<lparr>Letter = 65, Points = 1, IsBlank = False\<rparr>,
        \<lparr>Letter = 66, Points = 3, IsBlank = False\<rparr>, \<lparr>Letter = 0, Points = 0, IsBlank = True\<rparr>]\<rparr> < 5"
  using DrawTiles_count [of "\<lparr>tiles = [\<lparr>Letter = 65, Points = 1, IsBlank = False\<rparr>,
        \<lparr>Letter = 66, Points = 3, IsBlank = False\<rparr>, \<lparr>Letter = 0, Points = 0, IsBlank = True\<rparr>]\<rparr>" 5]
  by (simp add: RemainingCount_def)

section \<open>The rack\<close>

text \<open>
  C5. On a rack within its capacity of 7, \<open>AddTilesToRack\<close> returns an error exactly when
  the rack size plus the number of tiles to add exceeds 7, and then the player is
  unchanged; on success the tiles are appended, so the rack grows by exactly their number;
  either way the rack holds at most 7 tiles afterwards.
\<close>

theorem AddTilesToRack_capacity:
  assumes "int (length (Rack p)) \<le> MaxRackSize"
  shows "((snd (AddTilesToRack p ts) \<noteq> None)
            = (int (length (Rack p)) + int (length ts) > MaxRackSize))
       \<and> (snd (AddTilesToRack p ts) \<noteq> None \<longrightarrow> fst (AddTilesToRack p ts) = p)
       \<and> (snd (AddTilesToRack p ts) = None \<longrightarrow>
              fst (AddTilesToRack p ts) = p\<lparr>Rack := Rack p @ ts\<rparr>
            \<and> length (Rack (fst (AddTilesToRack p ts))) = length (Rack p) + length ts)
       \<and> int (length (Rack (fst (AddTilesToRack p ts)))) \<le> MaxRackSize"
  using assms by (auto simp: AddTilesToRack_def MaxRackSize_def)

theorem AddTilesToRack_capacity_witness:
  "int (length (Rack \<lparr>ID = ''p1'', Name = ''Ann'', Rack = replicate 6 \<lparr>Letter = 69, Points = 1, IsBlank = False\<rparr>,
        Score = 0, IsActive = True\<rparr>)) \<le> MaxRackSize
   \<and> snd (AddTilesToRack \<lparr>ID = ''p1'', Name = ''Ann'', Rack = replicate 6 \<lparr>Letter = 69, Points = 1, IsBlank = False\<rparr>,
        Score = 0, IsActive = True\<rparr> (replicate 2 \<lparr>Letter = 65, Points = 1, IsBlank = False\<rparr>)) \<noteq> None
   \<and> fst (AddTilesToRack \<lparr>ID = ''p1'', Name = ''Ann'', Rack = replicate 6 \<lparr>Letter = 69, Points = 1, IsBlank = False\<rparr>,
        Score = 0, IsActive = True\<rparr> (replicate 2 \<lparr>Letter = 65, Points = 1, IsBlank = False\<rparr>))
       = \<lparr>ID = ''p1'', Name = ''Ann'', Rack = replicate 6 \<lparr>Letter = 69, Points = 1, IsBlank = False\<rparr>,
        Score = 0, IsActive = True\<rparr>
   \<and> snd (AddTilesToRack \<lparr>ID = ''p1'', Name = ''Ann'', Rack = replicate 6 \<lparr>Letter = 69, Points = 1, IsBlank = False\<rparr>,
        Score = 0, IsActive = True\<rparr> [\<lparr>Letter = 65, Points = 1, IsBlank = False\<rparr>]) = None
   \<and> length (Rack (fst (AddTilesToRack \<lparr>ID = ''p1'', Name = ''Ann'', Rack = replicate 6 \<lparr>Letter = 69, Points = 1, IsBlank = False\<rparr>,
        Score = 0, IsActive = True\<rparr> [\<lparr>Letter = 65, Points = 1, IsBlank = False\<rparr>]))) = 7"
proof -
  define p where "p = \<lparr>ID = ''p1'', Name = ''Ann'', Rack = replicate 6 \<lparr>Letter = 69, Points = 1, IsBlank = False\<rparr>,
        Score = 0, IsActive = True\<rparr>"
  have cap: "int (length (Rack p)) \<le> MaxRackSize"
    by (simp add: p_def MaxRackSize_def)
  from AddTilesToRack_capacity [OF cap, of "replicate 2 \<lparr>Letter = 65, Points = 1, IsBlank = False\<rparr>"]
  have full: "snd (AddTilesToRack p (replicate 2 \<lparr>Letter = 65, Points = 1, IsBlank = False\<rparr>)) \<noteq> None"
    and same: "fst (AddTilesToRack p (replicate 2 \<lparr>Letter = 65, Points = 1, IsBlank = False\<rparr>)) = p"
    by (simp_all add: p_def MaxRackSize_def)
  from AddTilesToRack_capacity [OF cap, of "[\<lparr>Letter = 65, Points = 1, IsBlank = False\<rparr>]"]
  have fits: "snd (AddTilesToRack p [\<lparr>Letter = 65, Points = 1, IsBlank = False\<rparr>]) = None"
    by (simp add: p_def MaxRackSize_def)
  with AddTilesToRack_capacity [OF cap, of "[\<lparr>Letter = 65, Points = 1, IsBlank = False\<rparr>]"]
  have grown: "length (Rack (fst (AddTilesToRack p [\<lparr>Letter = 65, Points = 1, IsBlank = False\<rparr>])))
                 = length (Rack p) + length [\<lparr>Letter = 65, Points = 1, IsBlank = False\<rparr>]"
    by blast
  then have seven: "length (Rack (fst (AddTilesToRack p [\<lparr>Letter = 65, Points = 1, IsBlank = False\<rparr>]))) = 7"
    by (simp add: p_def)
  from cap full same fits seven show ?thesis unfolding p_def by simp
qed

lemma tilesEqual_iff: "tilesEqual a b = (a = b)"
  by (auto simp: tilesEqual_def)

lemma removeFound_eq:
  "removeFound t rack = (if t \<in> set rack then Some (remove1 t rack) else None)"
  by (induction rack) (auto simp: tilesEqual_iff)

lemma removeEach_found:
  "mset ts \<subseteq># mset rack \<Longrightarrow> \<exists>rc. removeEach ts rack = Inr rc \<and> mset rc = mset rack - mset ts"
proof (induction ts arbitrary: rack)
  case Nil
  show ?case by simp
next
  case (Cons t ts)
  from Cons.prems have mem: "t \<in> set rack" and rest: "mset ts \<subseteq># mset (remove1 t rack)"
    by (simp_all add: insert_subset_eq_iff)
  from Cons.IH [OF rest] obtain rc
    where "removeEach ts (remove1 t rack) = Inr rc" and "mset rc = mset (remove1 t rack) - mset ts"
    by blast
  with mem show ?case by (simp add: removeFound_eq)
qed

lemma removeEach_missing:
  "\<not> mset ts \<subseteq># mset rack \<Longrightarrow> \<exists>e. removeEach ts rack = Inl e"
proof (induction ts arbitrary: rack)
  case Nil
  then show ?case by simp
next
  case (Cons t ts)
  show ?case
  proof (cases "t \<in> set rack")
    case False
    then show ?thesis by (simp add: removeFound_eq)
  next
    case True
    with Cons.prems have "\<not> mset ts \<subseteq># mset (remove1 t rack)"
      by (simp add: insert_subset_eq_iff)
    from Cons.IH [OF this] True show ?thesis by (simp add: removeFound_eq)
  qed
qed

text \<open>
  C6. \<open>RemoveTilesByValue\<close> is all or nothing. If the requested tiles, counted with
  multiplicity, are not all in the rack, it returns an error and the player is unchanged.
  Otherwise it returns no error, the rack loses exactly one equal tile per requested tile
  (as multisets, the new rack is the old rack minus the request) and so shrinks by the
  number of requested tiles, and no other field of the player changes.
\<close>

theorem RemoveTilesByValue_all_or_nothing:
  "(\<not> mset ts \<subseteq># mset (Rack p) \<longrightarrow>
       snd (RemoveTilesByValue p ts) \<noteq> None \<and> fst (RemoveTilesByValue p ts) = p)
 \<and> (mset ts \<subseteq># mset (Rack p) \<longrightarrow>
       snd (RemoveTilesByValue p ts) = None
     \<and> mset (Rack (fst (RemoveTilesByValue p ts))) = mset (Rack p) - mset ts
     \<and> length (Rack (fst (RemoveTilesByValue p ts))) = length (Rack p) - length ts
     \<and> fst (RemoveTilesByValue p ts) = p\<lparr>Rack := Rack (fst (RemoveTilesByValue p ts))\<rparr>)"
proof (intro conjI impI)
  assume missing: "\<not> mset ts \<subseteq># mset (Rack p)"
  then have "ts \<noteq> []" by auto
  moreover from removeEach_missing [OF missing] obtain e where "removeEach ts (Rack p) = Inl e" ..
  ultimately show "snd (RemoveTilesByValue p ts) \<noteq> None" and "fst (RemoveTilesByValue p ts) = p"
    by (simp_all add: RemoveTilesByValue_def)
next
  assume held: "mset ts \<subseteq># mset (Rack p)"
  from removeEach_found [OF held] obtain rc
    where rc: "removeEach ts (Rack p) = Inr rc" and m: "mset rc = mset (Rack p) - mset ts" by blast
  have res: "RemoveTilesByValue p ts = (p\<lparr>Rack := rc\<rparr>, None)"
  proof (cases "ts = []")
    case True
    with rc show ?thesis by (simp add: RemoveTilesByValue_def)
  next
    case False
    with rc show ?thesis by (simp add: RemoveTilesByValue_def)
  qed
  show "snd (RemoveTilesByValue p ts) = None" by (simp add: res)
  show "mset (Rack (fst (RemoveTilesByValue p ts))) = mset (Rack p) - mset ts" by (simp add: res m)
  have "size (mset rc) = size (mset (Rack p)) - size (mset ts)"
    unfolding m using held by (rule size_Diff_submset)
  then show "length (Rack (fst (RemoveTilesByValue p ts))) = length (Rack p) - length ts"
    by (simp add: res)
  show "fst (RemoveTilesByValue p ts) = p\<lparr>Rack := Rack (fst (RemoveTilesByValue p ts))\<rparr>"
    by (simp add: res)
qed

theorem RemoveTilesByValue_all_or_nothing_witness:
  "\<not> mset [\<lparr>Letter = 66, Points = 3, IsBlank = False\<rparr>, \<lparr>Letter = 66, Points = 3, IsBlank = False\<rparr>]
        \<subseteq># mset (Rack \<lparr>ID = ''p1'', Name = ''Ann'',
              Rack = [\<lparr>Letter = 65, Points = 1, IsBlank = False\<rparr>, \<lparr>Letter = 66, Points = 3, IsBlank = False\<rparr>,
                      \<lparr>Letter = 65, Points = 1, IsBlank = False\<rparr>], Score = 0, IsActive = True\<rparr>)
   \<and> snd (RemoveTilesByValue \<lparr>ID = ''p1'', Name = ''Ann'',
              Rack = [\<lparr>Letter = 65, Points = 1, IsBlank = False\<rparr>, \<lparr>Letter = 66, Points = 3, IsBlank = False\<rparr>,
                      \<lparr>Letter = 65, Points = 1, IsBlank = False\<rparr>], Score = 0, IsActive = True\<rparr>
            [\<lparr>Letter = 66, Points = 3, IsBlank = False\<rparr>, \<lparr>Letter = 66, Points = 3, IsBlank = False\<rparr>]) \<noteq> None
   \<and> mset [\<lparr>Letter = 65, Points = 1, IsBlank = False\<rparr>, \<lparr>Letter = 65, Points = 1, IsBlank = False\<rparr>]
        \<subseteq># mset (Rack \<lparr>ID = ''p1'', Name = ''Ann'',
              Rack = [\<lparr>Letter = 65, Points = 1, IsBlank = False\<rparr>, \<lparr>Letter = 66, Points = 3, IsBlank = False\<rparr>,
                      \<lparr>Letter = 65, Points = 1, IsBlank = False\<rparr>], Score = 0, IsActive = True\<rparr>)
   \<and> snd (RemoveTilesByValue \<lparr>ID = ''p1'', Name = ''Ann'',
              Rack = [\<lparr>Letter = 65, Points = 1, IsBlank = False\<rparr>, \<lparr>Letter = 66, Points = 3, IsBlank = False\<rparr>,
                      \<lparr>Letter = 65, Points = 1, IsBlank = False\<rparr>], Score = 0, IsActive = True\<rparr>
            [\<lparr>Letter = 65, Points = 1, IsBlank = False\<rparr>, \<lparr>Letter = 65, Points = 1, IsBlank = False\<rparr>]) = None
   \<and> length (Rack (fst (RemoveTilesByValue \<lparr>ID = ''p1'', Name = ''Ann'',
              Rack = [\<lparr>Letter = 65, Points = 1, IsBlank = False\<rparr>, \<lparr>Letter = 66, Points = 3, IsBlank = False\<rparr>,
                      \<lparr>Letter = 65, Points = 1, IsBlank = False\<rparr>], Score = 0, IsActive = True\<rparr>
            [\<lparr>Letter = 65, Points = 1, IsBlank = False\<rparr>, \<lparr>Letter = 65, Points = 1, IsBlank = False\<rparr>]))) = 1"
proof -
  define a where "a = \<lparr>Letter = 65, Points = 1, IsBlank = False\<rparr>"
  define b where "b = \<lparr>Letter = 66, Points = 3, IsBlank = False\<rparr>"
  define p where "p = \<lparr>ID = ''p1'', Name = ''Ann'', Rack = [a, b, a], Score = 0, IsActive = True\<rparr>"
  have ab: "a \<noteq> b" by (simp add: a_def b_def)
  have missing: "\<not> mset [b, b] \<subseteq># mset (Rack p)"
    using ab by (simp add: p_def insert_subset_eq_iff)
  have held: "mset [a, a] \<subseteq># mset (Rack p)"
    using ab by (simp add: p_def insert_subset_eq_iff)
  from RemoveTilesByValue_all_or_nothing [of "[b, b]" p] missing
  have 1: "snd (RemoveTilesByValue p [b, b]) \<noteq> None" by blast
  from RemoveTilesByValue_all_or_nothing [of "[a, a]" p] held
  have 2: "snd (RemoveTilesByValue p [a, a]) = None"
    and "length (Rack (fst (RemoveTilesByValue p [a, a]))) = length (Rack p) - length [a, a]"
    by blast+
  then have 3: "length (Rack (fst (RemoveTilesByValue p [a, a]))) = 1"
    by (simp add: p_def)
  from missing 1 held 2 3 show ?thesis
    unfolding p_def a_def b_def by blast
qed


text \<open>
  The capacity is an invariant of the rack: a rack within capacity, in particular the
  empty rack of a new player, stays within capacity under every sequence of calls.
\<close>

lemma AddTilesToRack_within_capacity:
  "int (length (Rack p)) \<le> MaxRackSize \<Longrightarrow> int (length (Rack (fst (AddTilesToRack p ts)))) \<le> MaxRackSize"
  by (auto simp: AddTilesToRack_def MaxRackSize_def)

lemma removeEach_length: "removeEach ts rack = Inr rc \<Longrightarrow> length rc \<le> length rack"
proof (induction ts arbitrary: rack)
  case Nil
  then show ?case by simp
next
  case (Cons t ts)
  show ?case
  proof (cases "t \<in> set rack")
    case False
    with Cons.prems show ?thesis by (simp add: removeFound_eq)
  next
    case True
    with Cons.prems have "removeEach ts (remove1 t rack) = Inr rc"
      by (simp add: removeFound_eq)
    from Cons.IH [OF this] have "length rc \<le> length (remove1 t rack)" .
    also have "\<dots> \<le> length rack" by (simp add: length_remove1)
    finally show ?thesis .
  qed
qed

lemma RemoveTilesByValue_length:
  "length (Rack (fst (RemoveTilesByValue p ts))) \<le> length (Rack p)"
  by (auto simp: RemoveTilesByValue_def split: sum.splits dest: removeEach_length)

lemma racks_stay_within_capacity:
  "int (length (Rack p)) \<le> MaxRackSize \<Longrightarrow> int (length (Rack (run_rack_calls p calls))) \<le> MaxRackSize"
proof (induction calls arbitrary: p)
  case Nil
  then show ?case by simp
next
  case (Cons call calls)
  show ?case
  proof (cases call)
    case (CallAddTilesToRack ts)
    from Cons.IH [OF AddTilesToRack_within_capacity [OF Cons.prems, of ts]] CallAddTilesToRack
    show ?thesis by simp
  next
    case (CallRemoveTilesByValue ts)
    from RemoveTilesByValue_length [of p ts] Cons.prems
    have "int (length (Rack (fst (RemoveTilesByValue p ts)))) \<le> MaxRackSize" by simp
    from Cons.IH [OF this] CallRemoveTilesByValue show ?thesis by simp
  qed
qed

section \<open>Blank tiles\<close>

lemma mset_shuffleFrom: "k < length ts \<Longrightarrow> mset (shuffleFrom rnd k ts) = mset ts"
proof (induction k arbitrary: ts)
  case 0
  show ?case by simp
next
  case (Suc k)
  define j where "j = rnd (Suc k) mod (Suc k + 1)"
  have "j < Suc k + 1" unfolding j_def by (rule mod_less_divisor) simp
  with Suc.prems have j: "j < length ts" by simp
  define ts' where "ts' = ts[Suc k := ts ! j, j := ts ! Suc k]"
  have swap: "mset ts' = mset ts"
    unfolding ts'_def using j Suc.prems by (rule mset_swap)
  have "k < length ts'" using Suc.prems by (simp add: ts'_def)
  from Suc.IH [OF this] swap show ?case
    by (simp add: Let_def j_def ts'_def)
qed

lemma mset_shuffle: "mset (tiles (shuffle rnd tb)) = mset (tiles tb)"
proof (cases "tiles tb = []")
  case True
  then show ?thesis by (simp add: shuffle_def)
next
  case False
  then have "length (tiles tb) - 1 < length (tiles tb)" by (cases "tiles tb") simp_all
  then show ?thesis by (simp add: shuffle_def mset_shuffleFrom)
qed

lemma mset_ReturnTiles: "mset (tiles (ReturnTiles rnd tb ts)) = mset (tiles tb) + mset ts"
  by (simp add: ReturnTiles_def mset_shuffle)

lemma no_letter_zero: "map_of standardTileDistribution 0 = None"
  by (simp add: standardTileDistribution_def)

lemma addLetters_blanks:
  "filter (\<lambda>t. IsBlank t \<or> Letter t = 0) (addLetters order ts) = filter (\<lambda>t. IsBlank t \<or> Letter t = 0) ts"
proof (induction order arbitrary: ts)
  case Nil
  show ?case by simp
next
  case (Cons letter rest)
  show ?case
  proof (cases "map_of standardTileDistribution letter")
    case None
    with Cons.IH show ?thesis by simp
  next
    case (Some dist)
    then have "letter \<noteq> 0" using no_letter_zero by auto
    with Some Cons.IH show ?thesis by (cases dist) simp
  qed
qed

lemma NewTileBag_blanks:
  "filter_mset (\<lambda>t. IsBlank t \<or> Letter t = 0) (mset (tiles (NewTileBag order rnd)))
     = {#\<lparr>Letter = 0, Points = 0, IsBlank = True\<rparr>, \<lparr>Letter = 0, Points = 0, IsBlank = True\<rparr>#}"
proof -
  have "mset (tiles (NewTileBag order rnd))
          = mset (addLetters order [] @ replicate blankTileCount \<lparr>Letter = 0, Points = 0, IsBlank = True\<rparr>)"
    by (simp add: NewTileBag_def Let_def mset_shuffle)
  moreover have "filter (\<lambda>t. IsBlank t \<or> Letter t = 0)
                   (addLetters order [] @ replicate blankTileCount \<lparr>Letter = 0, Points = 0, IsBlank = True\<rparr>)
                 = [\<lparr>Letter = 0, Points = 0, IsBlank = True\<rparr>, \<lparr>Letter = 0, Points = 0, IsBlank = True\<rparr>]"
    by (simp add: addLetters_blanks blankTileCount_def numeral_2_eq_2)
  ultimately show ?thesis
    by (simp only: mset_filter [symmetric]) simp
qed

lemma GetTileValue_outside:
  assumes "letter < 65 \<or> 90 < letter"
  shows "GetTileValue letter = 0"
proof -
  have "letter \<notin> fst ` set standardTileDistribution"
    using assms unfolding standardTileDistribution_def by auto
  then have "map_of standardTileDistribution letter = None"
    by (simp add: map_of_eq_None_iff)
  then show ?thesis by (simp add: GetTileValue_def)
qed

text \<open>
  C7. Whatever order the letters are added in and whatever the shuffle draws, every
  blank tile of the bag made by \<open>NewTileBag\<close> (marked blank, or with letter 0) has 0
  points, and the bag holds exactly 2 of them; \<open>GetTileValue\<close> is 0 at the blank marker
  (letter 0) and at every rune outside A to Z.
\<close>

theorem blank_tiles_zero_points:
  "(\<forall>t\<in>set (tiles (NewTileBag order rnd)). IsBlank t \<or> Letter t = 0 \<longrightarrow> Points t = 0)
   \<and> length (filter (\<lambda>t. IsBlank t \<or> Letter t = 0) (tiles (NewTileBag order rnd))) = 2
   \<and> length (filter IsBlank (tiles (NewTileBag order rnd))) = 2
   \<and> GetTileValue 0 = 0
   \<and> (\<forall>letter. letter < 65 \<or> 90 < letter \<longrightarrow> GetTileValue letter = 0)"
proof (intro conjI ballI impI allI)
  fix t
  assume "t \<in> set (tiles (NewTileBag order rnd))" and "IsBlank t \<or> Letter t = 0"
  then have "t \<in># filter_mset (\<lambda>t. IsBlank t \<or> Letter t = 0) (mset (tiles (NewTileBag order rnd)))"
    by simp
  then show "Points t = 0" unfolding NewTileBag_blanks by auto
next
  have "size (filter_mset (\<lambda>t. IsBlank t \<or> Letter t = 0) (mset (tiles (NewTileBag order rnd)))) = 2"
    unfolding NewTileBag_blanks by simp
  then show "length (filter (\<lambda>t. IsBlank t \<or> Letter t = 0) (tiles (NewTileBag order rnd))) = 2"
    by (simp only: mset_filter [symmetric] size_mset)
next
  have "filter_mset IsBlank (filter_mset (\<lambda>t. IsBlank t \<or> Letter t = 0) (mset (tiles (NewTileBag order rnd))))
          = filter_mset IsBlank (mset (tiles (NewTileBag order rnd)))"
    by (auto simp: filter_filter_mset intro!: filter_mset_cong)
  then have "filter_mset IsBlank (mset (tiles (NewTileBag order rnd)))
          = {#\<lparr>Letter = 0, Points = 0, IsBlank = True\<rparr>, \<lparr>Letter = 0, Points = 0, IsBlank = True\<rparr>#}"
    unfolding NewTileBag_blanks by simp
  then have "size (filter_mset IsBlank (mset (tiles (NewTileBag order rnd)))) = 2"
    by simp
  then show "length (filter IsBlank (tiles (NewTileBag order rnd))) = 2"
    by (simp only: mset_filter [symmetric] size_mset)
next
  show "GetTileValue 0 = 0" by (simp add: GetTileValue_outside)
next
  fix letter :: int
  assume "letter < 65 \<or> 90 < letter"
  then show "GetTileValue letter = 0" by (rule GetTileValue_outside)
qed

theorem blank_tiles_zero_points_witness:
  "\<lparr>Letter = 0, Points = 0, IsBlank = True\<rparr> \<in> set (tiles (NewTileBag [90, 65] (\<lambda>i. 2 * i)))
   \<and> length (filter IsBlank (tiles (NewTileBag [90, 65] (\<lambda>i. 2 * i)))) = 2
   \<and> GetTileValue 0 = 0
   \<and> GetTileValue 97 = 0"
proof -
  note t = blank_tiles_zero_points [of "[90, 65]" "\<lambda>i. 2 * i"]
  have "length (filter IsBlank (tiles (NewTileBag [90, 65] (\<lambda>i. 2 * i)))) \<noteq> 0"
    using t by simp
  then obtain x where x: "x \<in> set (tiles (NewTileBag [90, 65] (\<lambda>i. 2 * i)))" and blank: "IsBlank x"
    by (auto simp: filter_empty_conv)
  have "filter_mset (\<lambda>t. IsBlank t \<or> Letter t = 0) (mset (tiles (NewTileBag [90, 65] (\<lambda>i. 2 * i))))
          = {#\<lparr>Letter = 0, Points = 0, IsBlank = True\<rparr>, \<lparr>Letter = 0, Points = 0, IsBlank = True\<rparr>#}"
    by (rule NewTileBag_blanks)
  moreover have "x \<in># filter_mset (\<lambda>t. IsBlank t \<or> Letter t = 0) (mset (tiles (NewTileBag [90, 65] (\<lambda>i. 2 * i))))"
    using x blank by simp
  ultimately have "x = \<lparr>Letter = 0, Points = 0, IsBlank = True\<rparr>" by simp
  with x have mem: "\<lparr>Letter = 0, Points = 0, IsBlank = True\<rparr> \<in> set (tiles (NewTileBag [90, 65] (\<lambda>i. 2 * i)))"
    by simp
  have "(90::int) < 97" by simp
  with t have "GetTileValue 97 = 0" by blast
  with mem t show ?thesis by blast
qed


end
